theory Spec2Isabelle
  imports Complex_Main "HOL-Library.Word"
begin

section \<open>Untyped JSON values and destination values\<close>

text \<open>
  \<open>encoding/json\<close> decodes into \<open>interface{}\<close> as \<open>nil\<close>, \<open>bool\<close>, \<open>float64\<close>,
  \<open>string\<close>, \<open>[]interface{}\<close> or \<open>map[string]interface{}\<close>. A decoded number is a
  finite double (the decoder rejects numbers out of range), so it is kept as its exact
  rational value. An object keeps its members in the order of the text; where the Go
  value is a map, a later member with the same key has replaced an earlier one
  (\<open>map_index\<close> below).
\<close>

type_synonym float64 = rat

datatype jvalue =
    JNull
  | JBool bool
  | JNumber float64
  | JString string
  | JArray "jvalue list"
  | JObject "(string \<times> jvalue) list"

text \<open>
  The content of a destination slot (a \<open>reflect.Value\<close> the mapper may set). Go's
  \<open>int\<close> is taken as 64 bits wide. \<open>DNilSlice\<close> is the nil slice, the zero value of a
  slice; \<open>DSlice []\<close> is an allocated slice of length 0. \<open>DInterface JNull\<close> is the nil
  interface. \<open>DOpaque\<close> stands for the value of a kind the mapper never writes.
\<close>

datatype dvalue =
    DBool bool
  | DInt "64 word"
  | DFloat float64
  | DString string
  | DNilSlice
  | DSlice "dvalue list"
  | DStruct "dvalue list"
  | DInterface jvalue
  | DOpaque

datatype panic = Panic string

text \<open>
  A \<open>SelfParse\<close> method found by \<open>MethodByName\<close> on the address of a struct slot. It is
  called with the raw value and works on its receiver: it panics (also when
  \<open>reflect\<close>'s \<open>Call\<close> rejects the argument), or it returns and hands back its result
  values. Either way it leaves the receiver in a new state, which is given with the
  panic and with the results. A hook that writes elsewhere is not covered.
\<close>

type_synonym hook = "jvalue \<Rightarrow> dvalue \<Rightarrow> (panic \<times> dvalue) + (dvalue \<times> dvalue list)"

text \<open>
  The shape of a record as \<open>reflect\<close> presents it: the kind of a type, for a struct
  its fields in declaration order and its \<open>SelfParse\<close> method if it has one, for a
  slice its element type. \<open>RInterface ok\<close> is an interface type, \<open>ok\<close> telling which
  dynamic values are assignable to it (all of them for \<open>interface{}\<close>). \<open>ROther k\<close>
  is any other kind, \<open>k\<close> its name as \<open>Kind.String\<close> prints it. A struct tag is held
  as its \<open>key:"value"\<close> pairs in order. The structs covered are those whose fields
  are all exported: \<open>reflect\<close> refuses to set any other field.
\<close>

datatype rtype =
    RBool
  | RInt
  | RFloat64
  | RString
  | RSlice rtype
  | RStruct "hook option" "field list"
  | RInterface "jvalue \<Rightarrow> bool"
  | ROther string
and field = Field (Name: string) (Tag: "(string \<times> string) list") (Type: rtype)

fun Tag_Lookup :: "(string \<times> string) list \<Rightarrow> string \<Rightarrow> string option" where
  "Tag_Lookup tag k = map_of tag k"

fun Kind_String :: "rtype \<Rightarrow> string" where
  "Kind_String RBool = ''bool''"
| "Kind_String RInt = ''int''"
| "Kind_String RFloat64 = ''float64''"
| "Kind_String RString = ''string''"
| "Kind_String (RSlice t) = ''slice''"
| "Kind_String (RStruct h fs) = ''struct''"
| "Kind_String (RInterface ok) = ''interface''"
| "Kind_String (ROther k) = k"

text \<open>The zero value of a type, as \<open>reflect.MakeSlice\<close> and a fresh record hold it.\<close>

fun zero :: "rtype \<Rightarrow> dvalue"
  and zeros :: "field list \<Rightarrow> dvalue list" where
  "zero RBool = DBool False"
| "zero RInt = DInt 0"
| "zero RFloat64 = DFloat 0"
| "zero RString = DString []"
| "zero (RSlice t) = DNilSlice"
| "zero (RStruct h fs) = DStruct (zeros fs)"
| "zero (RInterface ok) = DInterface JNull"
| "zero (ROther k) = DOpaque"
| "zeros [] = []"
| "zeros (Field name tag t # fs) = zero t # zeros fs"

text \<open>\<open>m[key]\<close> on a decoded object: the last member with that key, \<open>nil\<close> if none.\<close>

definition map_index :: "(string \<times> jvalue) list \<Rightarrow> string \<Rightarrow> jvalue" where
  "map_index m key = (case map_of (rev m) key of None \<Rightarrow> JNull | Some v \<Rightarrow> v)"

section \<open>The coercion helpers\<close>

definition quoted :: "string \<Rightarrow> string" where
  "quoted key = CHR 0x27 # key @ [CHR 0x27]"

definition parse_error :: "string \<Rightarrow> string \<Rightarrow> panic" where
  "parse_error key what =
     Panic (''PARSE ERROR: could not parse column '' @ quoted key @ '' as '' @ what)"

definition unhandled_case :: "string \<Rightarrow> rtype \<Rightarrow> panic" where
  "unhandled_case key t =
     Panic (''UNHANDLED CASE: '' @ key @ '' of kind '' @ Kind_String t)"

text \<open>
  \<open>int64(n)\<close> for a \<open>float64\<close>: the fraction is discarded. When the result does not
  fit, Go leaves the value to the implementation; the one given here is amd64's.
\<close>

definition math_Trunc :: "float64 \<Rightarrow> int" where
  "math_Trunc n = (if 0 \<le> n then \<lfloor>n\<rfloor> else - \<lfloor>- n\<rfloor>)"

definition int64 :: "float64 \<Rightarrow> 64 word" where
  "int64 n =
     (if - (2 ^ 63) \<le> math_Trunc n \<and> math_Trunc n < 2 ^ 63 then word_of_int (math_Trunc n)
      else word_of_int (- (2 ^ 63)))"

fun handleString :: "string \<Rightarrow> dvalue \<Rightarrow> jvalue \<Rightarrow> panic + dvalue" where
  "handleString key f (JString str) = Inr (DString str)"
| "handleString key f v = Inl (parse_error key ''string'')"

fun handleInt :: "string \<Rightarrow> dvalue \<Rightarrow> jvalue \<Rightarrow> panic + dvalue" where
  "handleInt key f (JNumber n) = Inr (DInt (int64 n))"
| "handleInt key f v = Inl (parse_error key ''int'')"

fun handleFloat :: "string \<Rightarrow> dvalue \<Rightarrow> jvalue \<Rightarrow> panic + dvalue" where
  "handleFloat key f (JNumber n) = Inr (DFloat n)"
| "handleFloat key f v = Inl (parse_error key ''int'')"

fun handleBool :: "string \<Rightarrow> dvalue \<Rightarrow> jvalue \<Rightarrow> panic + dvalue" where
  "handleBool key f (JBool b) = Inr (DBool b)"
| "handleBool key f v = Inl (parse_error key ''bool'')"

text \<open>
  \<open>f.Set(reflect.ValueOf(*v))\<close>: \<open>reflect\<close> panics when the value is not assignable to
  the interface type.
\<close>

definition handleInterface :: "string \<Rightarrow> (jvalue \<Rightarrow> bool) \<Rightarrow> dvalue \<Rightarrow> jvalue \<Rightarrow> panic + dvalue" where
  "handleInterface key ok f v =
     (if ok v then Inr (DInterface v)
      else Inl (Panic ''reflect.Set: value is not assignable to type''))"

text \<open>
  The slots of the fields of a struct value, and the first of them. A value of a
  struct type has one slot for each field of the type; where the list is shorter the
  zero value stands in.
\<close>

fun first_slot :: "rtype \<Rightarrow> dvalue list \<Rightarrow> dvalue" where
  "first_slot t [] = zero t"
| "first_slot t (x # xs) = x"

fun struct_slots :: "field list \<Rightarrow> dvalue \<Rightarrow> dvalue list" where
  "struct_slots fs (DStruct xs) = xs"
| "struct_slots fs s = zeros fs"

text \<open>
  \<open>handleStruct\<close> and \<open>handleSlice\<close> with their loops. \<open>dispatch\<close> is the
  \<open>switch\<close> on the kind of the slot, which the two loops share word for word.
  A panic ends the call; what the slot holds at that point is given by
  \<open>written_slot\<close> below.
\<close>

function (sequential) dispatch :: "string \<Rightarrow> rtype \<Rightarrow> dvalue \<Rightarrow> jvalue \<Rightarrow> panic + dvalue"
  and handleStruct :: "string \<Rightarrow> hook option \<Rightarrow> field list \<Rightarrow> dvalue \<Rightarrow> jvalue \<Rightarrow> panic + dvalue"
  and handleStruct_loop :: "field list \<Rightarrow> dvalue list \<Rightarrow> (string \<times> jvalue) list \<Rightarrow> panic + dvalue list"
  and handleSlice :: "string \<Rightarrow> rtype \<Rightarrow> dvalue \<Rightarrow> jvalue \<Rightarrow> panic + dvalue"
  and handleSlice_loop :: "string \<Rightarrow> rtype \<Rightarrow> jvalue list \<Rightarrow> panic + dvalue list" where
  "dispatch key (RStruct h fs) f v = handleStruct key h fs f v"
| "dispatch key RBool f v = handleBool key f v"
| "dispatch key RInt f v = handleInt key f v"
| "dispatch key RFloat64 f v = handleFloat key f v"
| "dispatch key RString f v = handleString key f v"
| "dispatch key (RSlice et) f v = handleSlice key et f v"
| "dispatch key (RInterface ok) f v = Inl (unhandled_case key (RInterface ok))"
| "dispatch key (ROther k) f v = Inl (unhandled_case key (ROther k))"
| "handleStruct key (Some maybeParse) fs s v =
     (case maybeParse v s of
        Inl (p, s') \<Rightarrow> Inl p
      | Inr (s', results) \<Rightarrow> Inr s')"
| "handleStruct key None fs s v =
     (case v of
        JObject m \<Rightarrow>
          (case handleStruct_loop fs (struct_slots fs s) m of
             Inl p \<Rightarrow> Inl p
           | Inr xs \<Rightarrow> Inr (DStruct xs))
      | _ \<Rightarrow> Inl (parse_error key ''struct''))"
| "handleStruct_loop [] slots m = Inr []"
| "handleStruct_loop (Field name tag t # fs) slots m =
     (let key = (case Tag_Lookup tag ''from'' of
                   Some from \<Rightarrow> from
                 | None \<Rightarrow> name);
          v = map_index m key
      in case dispatch key t (first_slot t slots) v of
           Inl p \<Rightarrow> Inl p
         | Inr x \<Rightarrow>
             (case handleStruct_loop fs (tl slots) m of
                Inl p \<Rightarrow> Inl p
              | Inr xs \<Rightarrow> Inr (x # xs)))"
| "handleSlice key et f v =
     (case v of
        JArray s \<Rightarrow>
          (case handleSlice_loop key et s of
             Inl p \<Rightarrow> Inl p
           | Inr dst \<Rightarrow> Inr (DSlice dst))
      | _ \<Rightarrow> Inl (parse_error key ''slice''))"
| "handleSlice_loop key et [] = Inr []"
| "handleSlice_loop key et (v # s) =
     (case dispatch key et (zero et) v of
        Inl p \<Rightarrow> Inl p
      | Inr elem \<Rightarrow>
          (case handleSlice_loop key et s of
             Inl p \<Rightarrow> Inl p
           | Inr dst \<Rightarrow> Inr (elem # dst)))"
  by pat_completeness auto
termination
  by (relation "measures [
     (\<lambda>x. case x of
        Inl (Inl (key, t, f, v)) \<Rightarrow> size t
      | Inl (Inr (key, h, fs, s, v)) \<Rightarrow> size_list size fs
      | Inr (Inl (fs, slots, m)) \<Rightarrow> size_list size fs
      | Inr (Inr (Inl (key, et, f, v))) \<Rightarrow> size et
      | Inr (Inr (Inr (key, et, s))) \<Rightarrow> size et),
     (\<lambda>x. case x of
        Inl (Inl a) \<Rightarrow> 0
      | Inl (Inr a) \<Rightarrow> 1
      | Inr (Inl a) \<Rightarrow> 0
      | Inr (Inr (Inl a)) \<Rightarrow> 2
      | Inr (Inr (Inr a)) \<Rightarrow> Suc 0),
     (\<lambda>x. case x of
        Inr (Inr (Inr (key, et, s))) \<Rightarrow> length s
      | _ \<Rightarrow> 0)]") auto

text \<open>
  The loop of \<open>Get\<close> over the fields of the record. Its \<open>switch\<close> has the cases of
  \<open>dispatch\<close> and one more, for a slot of interface kind. \<open>Get_field\<close> is the body
  of the loop for one field: a field whose value is \<open>nil\<close> (absent from the map, or
  \<open>null\<close>) is skipped and keeps what it held.
\<close>

fun Get_switch :: "string \<Rightarrow> rtype \<Rightarrow> dvalue \<Rightarrow> jvalue \<Rightarrow> panic + dvalue" where
  "Get_switch key (RStruct h fs) f v = handleStruct key h fs f v"
| "Get_switch key RBool f v = handleBool key f v"
| "Get_switch key RInt f v = handleInt key f v"
| "Get_switch key RFloat64 f v = handleFloat key f v"
| "Get_switch key RString f v = handleString key f v"
| "Get_switch key (RSlice et) f v = handleSlice key et f v"
| "Get_switch key (RInterface ok) f v = handleInterface key ok f v"
| "Get_switch key (ROther k) f v = Inl (unhandled_case key (ROther k))"

definition Get_field :: "string \<Rightarrow> rtype \<Rightarrow> dvalue \<Rightarrow> jvalue \<Rightarrow> panic + dvalue" where
  "Get_field key t f v = (if v \<noteq> JNull then Get_switch key t f v else Inr f)"

fun Get_loop :: "field list \<Rightarrow> dvalue list \<Rightarrow> (string \<times> jvalue) list \<Rightarrow> panic + dvalue list" where
  "Get_loop [] slots fields = Inr []"
| "Get_loop (Field name tag t # fs) slots fields =
     (let key = (case Tag_Lookup tag ''from'' of
                   Some from \<Rightarrow> from
                 | None \<Rightarrow> name);
          v = map_index fields key
      in case Get_field key t (first_slot t slots) v of
           Inl p \<Rightarrow> Inl p
         | Inr x \<Rightarrow>
             (case Get_loop fs (tl slots) fields of
                Inl p \<Rightarrow> Inl p
              | Inr xs \<Rightarrow> Inr (x # xs)))"

text \<open>
  What the mapper has written when it stops, by returning or by a panic. The setters
  write in place: a primitive slot is set after its value has passed the assertion,
  a slice slot is set once, after all its elements are mapped into a slice of their
  own, and the fields of a struct are set one after the other, so that a panic
  leaves the fields before it written and the fields after it as they were.
  \<open>written_slot\<close> is the slot after \<open>dispatch\<close>, \<open>written_fields\<close> the slots after the
  loop of \<open>handleStruct\<close>, \<open>Get_written\<close> the record after the loop of \<open>Get\<close>.
\<close>

fun untouched :: "field list \<Rightarrow> dvalue list \<Rightarrow> dvalue list" where
  "untouched [] slots = []"
| "untouched (Field name tag t # fs) slots = first_slot t slots # untouched fs (tl slots)"

function (sequential) written_slot :: "string \<Rightarrow> rtype \<Rightarrow> dvalue \<Rightarrow> jvalue \<Rightarrow> dvalue"
  and written_fields :: "field list \<Rightarrow> dvalue list \<Rightarrow> (string \<times> jvalue) list \<Rightarrow> dvalue list" where
  "written_slot key (RStruct (Some maybeParse) fs) s v =
     (case maybeParse v s of
        Inl (p, s') \<Rightarrow> s'
      | Inr (s', results) \<Rightarrow> s')"
| "written_slot key (RStruct None fs) s v =
     (case v of
        JObject m \<Rightarrow> DStruct (written_fields fs (struct_slots fs s) m)
      | _ \<Rightarrow> s)"
| "written_slot key t f v =
     (case dispatch key t f v of
        Inl p \<Rightarrow> f
      | Inr x \<Rightarrow> x)"
| "written_fields [] slots m = []"
| "written_fields (Field name tag t # fs) slots m =
     (let key = (case Tag_Lookup tag ''from'' of
                   Some from \<Rightarrow> from
                 | None \<Rightarrow> name);
          v = map_index m key
      in case dispatch key t (first_slot t slots) v of
           Inl p \<Rightarrow> written_slot key t (first_slot t slots) v # untouched fs (tl slots)
         | Inr x \<Rightarrow> x # written_fields fs (tl slots) m)"
  by pat_completeness auto
termination
  by (relation "measure (\<lambda>x. case x of
        Inl (key, t, f, v) \<Rightarrow> size t
      | Inr (fs, slots, m) \<Rightarrow> size_list size fs)") auto


section \<open>Client, errors and the setup check\<close>

datatype error =
    ErrClientSetupError string
  | ErrClientRequestError string
  | SyntaxError
  | UnmarshalTypeError string string
  | TransportError string

record request =
  Method :: string
  URL :: string
  Header :: "(string \<times> string) list"

text \<open>A response is kept as what \<open>ioutil.ReadAll\<close> makes of its body.\<close>

record response =
  Body :: "error + string"

type_synonym http_client = "request \<Rightarrow> error + response"

text \<open>
  \<open>src/airtable.go\<close> declares the client with four fields and a setup check that
  returns an error; the other source file adds the HTTP client and panics instead.
  The first is the record \<open>Client_0\<close> with \<open>checkSetup_0\<close> and \<open>RequestBytes_0\<close>, the
  second extends it.
\<close>

record Client_0 =
  APIKey :: string
  BaseID :: string
  Version :: string
  RootURL :: string

record Client = Client_0 +
  HTTPClient :: "http_client option"

definition defaultRootURL :: string where
  "defaultRootURL = ''https://api.airtable.com''"

definition defaultVersion :: string where
  "defaultVersion = ''v0''"

text \<open>The assignments that end both versions of \<open>checkSetup\<close>.\<close>

definition set_defaults :: "'a Client_0_scheme \<Rightarrow> 'a Client_0_scheme" where
  "set_defaults c =
     (let c1 = (if Version c = [] then c\<lparr>Version := defaultVersion\<rparr> else c)
      in if RootURL c1 = [] then c1\<lparr>RootURL := defaultRootURL\<rparr> else c1)"

definition checkSetup_0 :: "Client_0 \<Rightarrow> error option \<times> Client_0" where
  "checkSetup_0 c =
     (if BaseID c = [] then (Some (ErrClientSetupError ''Client missing BaseID''), c)
      else if APIKey c = [] then (Some (ErrClientSetupError ''Client missing APIKey''), c)
      else (None, set_defaults c))"

definition checkSetup :: "Client \<Rightarrow> panic + Client" where
  "checkSetup c =
     (if BaseID c = [] then Inl (Panic ''airtable: Client missing BaseID'')
      else if APIKey c = [] then Inl (Panic ''airtable: Client missing APIKey'')
      else if HTTPClient c = None then Inl (Panic ''airtable: missing HTTP client'')
      else Inr (set_defaults c))"

text \<open>
  A \<open>QueryEncoder\<close> is kept as the string its \<open>Encode\<close> returns; \<open>None\<close> is the nil
  interface, for which \<open>RequestBytes\<close> takes \<open>url.Values{}\<close>, encoded as the empty
  string. \<open>makeURL\<close> is given the encoded options.
\<close>

type_synonym QueryEncoder = string

definition Encode :: "QueryEncoder option \<Rightarrow> string" where
  "Encode options = (case options of None \<Rightarrow> [] | Some q \<Rightarrow> q)"

definition makeURL :: "'a Client_0_scheme \<Rightarrow> string \<Rightarrow> QueryEncoder \<Rightarrow> string" where
  "makeURL c resource options =
     RootURL c @ ''/'' @ Version c @ ''/'' @ BaseID c @ ''/'' @ resource @ ''?'' @ options"

section \<open>Decoding the response\<close>

text \<open>
  What the code takes from its libraries and its process: the value of a JSON text
  (\<open>None\<close> for a text that is not valid JSON), the environment variables, the error
  \<open>http.NewRequest\<close> gives for a URL it cannot parse, \<open>path.Join\<close>, and the zero
  \<open>http.Client\<close> that \<open>src/airtable.go\<close> sends with.
\<close>

record env =
  json_value :: "string \<Rightarrow> jvalue option"
  Getenv :: "string \<Rightarrow> string"
  NewRequest_error :: "string \<Rightarrow> error option"
  path_Join :: "string \<Rightarrow> string \<Rightarrow> string"
  zero_http_Client :: http_client

text \<open>
  \<open>json.Unmarshal\<close> into a struct, as \<open>encoding/json\<close> documents it. \<open>null\<close> has no
  effect on a struct or a string and is no error; a value of the wrong kind is
  skipped and the first such mismatch is the error returned at the end. The members
  of an object are taken in order, each going to the field whose name matches its key,
  exactly or under case folding; a member without a field is ignored. For names
  made of ASCII letters the folding is that of the ASCII letters and of the two
  runes U+017F and U+212A, which fold to \<open>S\<close> and \<open>K\<close>.
\<close>

definition upper :: "char \<Rightarrow> char" where
  "upper c =
     (case map_of (zip ''abcdefghijklmnopqrstuvwxyz'' ''ABCDEFGHIJKLMNOPQRSTUVWXYZ'') c of
        None \<Rightarrow> c
      | Some u \<Rightarrow> u)"

fun foldName :: "string \<Rightarrow> string" where
  "foldName [] = []"
| "foldName [c] = [upper c]"
| "foldName [c, d] =
     (if [c, d] = [CHR 0xC5, CHR 0xBF] then ''S'' else [upper c, upper d])"
| "foldName (c # d # e # cs) =
     (if [c, d] = [CHR 0xC5, CHR 0xBF] then CHR ''S'' # foldName (e # cs)
      else if [c, d, e] = [CHR 0xE2, CHR 0x84, CHR 0xAA] then CHR ''K'' # foldName cs
      else upper c # foldName (d # e # cs))"

definition matches :: "string \<Rightarrow> string \<Rightarrow> bool" where
  "matches field_name key = (foldName key = foldName field_name)"

fun Value_name :: "jvalue \<Rightarrow> string" where
  "Value_name JNull = ''null''"
| "Value_name (JBool b) = ''bool''"
| "Value_name (JNumber n) = ''number''"
| "Value_name (JString s) = ''string''"
| "Value_name (JArray xs) = ''array''"
| "Value_name (JObject m) = ''object''"

definition saveError :: "error \<Rightarrow> error option \<Rightarrow> error option" where
  "saveError e saved = (case saved of None \<Rightarrow> Some e | Some first \<Rightarrow> Some first)"

record errorResponse =
  Error_Type :: string
  Error_Message :: string

fun decode_Error_member :: "string \<times> jvalue \<Rightarrow> errorResponse \<times> error option \<Rightarrow> errorResponse \<times> error option" where
  "decode_Error_member (k, v) (r, saved) =
     (if matches ''type'' k then
        (case v of
           JString s \<Rightarrow> (r\<lparr>Error_Type := s\<rparr>, saved)
         | JNull \<Rightarrow> (r, saved)
         | _ \<Rightarrow> (r, saveError (UnmarshalTypeError (Value_name v) ''string'') saved))
      else if matches ''message'' k then
        (case v of
           JString s \<Rightarrow> (r\<lparr>Error_Message := s\<rparr>, saved)
         | JNull \<Rightarrow> (r, saved)
         | _ \<Rightarrow> (r, saveError (UnmarshalTypeError (Value_name v) ''string'') saved))
      else (r, saved))"

fun decode_errorResponse_member :: "string \<times> jvalue \<Rightarrow> errorResponse \<times> error option \<Rightarrow> errorResponse \<times> error option" where
  "decode_errorResponse_member (k, v) (r, saved) =
     (if matches ''error'' k then
        (case v of
           JObject ms \<Rightarrow> fold decode_Error_member ms (r, saved)
         | JNull \<Rightarrow> (r, saved)
         | _ \<Rightarrow> (r, saveError (UnmarshalTypeError (Value_name v) ''struct'') saved))
      else (r, saved))"

definition Unmarshal_errorResponse :: "jvalue \<Rightarrow> errorResponse \<times> error option" where
  "Unmarshal_errorResponse j =
     (let reqerr = \<lparr>Error_Type = [], Error_Message = []\<rparr>
      in case j of
           JObject ms \<Rightarrow> fold decode_errorResponse_member ms (reqerr, None)
         | JNull \<Rightarrow> (reqerr, None)
         | _ \<Rightarrow> (reqerr, Some (UnmarshalTypeError (Value_name j) ''airtable.errorResponse'')))"

definition checkErrorResponse :: "env \<Rightarrow> string \<Rightarrow> error option" where
  "checkErrorResponse env b =
     (case json_value env b of
        None \<Rightarrow> Some SyntaxError
      | Some j \<Rightarrow>
          (case Unmarshal_errorResponse j of
             (reqerr, Some jsonerr) \<Rightarrow> Some jsonerr
           | (reqerr, None) \<Rightarrow>
               if Error_Type reqerr \<noteq> [] then Some (ErrClientRequestError (Error_Message reqerr))
               else None))"




section \<open>The transport\<close>

text \<open>
  What a call does to the outside, in order: a token taken from the rate limiter, a
  request handed to the HTTP client.
\<close>

datatype event = Take | Do request

text \<open>
  \<open>RequestBytes\<close> gives the client as the call leaves it, the events of the call and
  its outcome: a panic, or the pair of the bytes (\<open>None\<close> for nil) and the error
  (\<open>None\<close> for nil). \<open>send\<close> is the end of both versions of \<open>RequestBytes\<close>: the
  request goes to the HTTP client, the body is read, and the bytes are checked for an
  error envelope.
\<close>

definition send :: "http_client \<Rightarrow> env \<Rightarrow> request \<Rightarrow> string option \<times> error option" where
  "send httpclient env req =
     (case httpclient req of
        Inl err \<Rightarrow> (None, Some err)
      | Inr resp \<Rightarrow>
          (case Body resp of
             Inl err \<Rightarrow> (None, Some err)
           | Inr bytes \<Rightarrow>
               (case checkErrorResponse env bytes of
                  Some err \<Rightarrow> (Some bytes, Some err)
                | None \<Rightarrow> (Some bytes, None))))"

text \<open>The request that \<open>RequestBytes\<close> builds: a GET with the bearer header.\<close>

definition GET_request :: "string \<Rightarrow> string \<Rightarrow> request" where
  "GET_request url key =
     \<lparr>Method = ''GET'', URL = url, Header = [(''Authorization'', ''Bearer '' @ key)]\<rparr>"

definition RequestBytes ::
  "env \<Rightarrow> Client \<Rightarrow> string \<Rightarrow> string \<Rightarrow> QueryEncoder option \<Rightarrow>
     Client \<times> event list \<times> (panic + string option \<times> error option)" where
  "RequestBytes env c method endpoint options =
     (case checkSetup c of
        Inl p \<Rightarrow> (c, [], Inl p)
      | Inr c' \<Rightarrow>
          (let url = makeURL c' endpoint (Encode options)
           in case NewRequest_error env url of
                Some err \<Rightarrow> (c', [], Inr (None, Some err))
              | None \<Rightarrow>
                  (let req = GET_request url (APIKey c');
                       limited = (if Getenv env ''AIRTABLE_NO_LIMIT'' = [] then [Take] else [])
                   in case HTTPClient c' of
                        None \<Rightarrow> (c', limited, Inl (Panic ''nil pointer dereference''))
                      | Some httpclient \<Rightarrow>
                          (c', limited @ [Do req], Inr (send httpclient env req)))))"

definition RequestBytes_0 ::
  "env \<Rightarrow> Client_0 \<Rightarrow> string \<Rightarrow> QueryEncoder option \<Rightarrow>
     Client_0 \<times> event list \<times> string option \<times> error option" where
  "RequestBytes_0 env c resource options =
     (case checkSetup_0 c of
        (Some err, c') \<Rightarrow> (c', [], None, Some err)
      | (None, c') \<Rightarrow>
          (let url = makeURL c' resource (Encode options)
           in case NewRequest_error env url of
                Some err \<Rightarrow> (c', [], None, Some err)
              | None \<Rightarrow>
                  (let req = GET_request url (APIKey c')
                   in (c', [Do req], send (zero_http_Client env) env req))))"

section \<open>Resources\<close>

text \<open>
  A resource holds its name, its client and the record it was made with, a pointer
  to a struct. The pointer is an address into the storage of records, together with
  the type of the struct; records at different addresses are different structs that
  do not overlap. All resources here are made from the one client that is passed
  along. \<open>Get\<close> gives the client, the events and the outcome: a panic with the
  storage as the panic leaves it, or the storage as the call leaves it with the
  response and the error.
\<close>

record Resource =
  name :: string
  record_ptr :: nat
  record_type :: "field list"





section \<open>The error envelope of the wire protocol\<close>

text \<open>The string that the members of an object leave in a field of that name.\<close>

definition final_string :: "string \<Rightarrow> (string \<times> jvalue) list \<Rightarrow> string \<Rightarrow> string" where
  "final_string field_name ms cur =
     fold (\<lambda>(k, v) acc. if matches field_name k then (case v of JString s \<Rightarrow> s | _ \<Rightarrow> acc) else acc)
       ms cur"

text \<open>
  The service reports a failure as \<open>{error: {type, message}}\<close>. An object holds such
  an envelope in its members named \<open>error\<close>; \<open>inner_members\<close> are the members of
  those that are objects, in order. The envelope is well typed when every member
  named \<open>error\<close> is an object or \<open>null\<close> and every member named \<open>type\<close> or
  \<open>message\<close> inside is a string or \<open>null\<close>. Its type and its message are the last
  strings under these names, empty when there is none. Names are compared as the
  decoder does.
\<close>

fun typed_member :: "string \<times> jvalue \<Rightarrow> bool" where
  "typed_member (k, v) =
     (if matches ''type'' k \<or> matches ''message'' k
      then (case v of JString s \<Rightarrow> True | JNull \<Rightarrow> True | _ \<Rightarrow> False)
      else True)"

fun inner_members :: "(string \<times> jvalue) list \<Rightarrow> (string \<times> jvalue) list" where
  "inner_members [] = []"
| "inner_members ((k, v) # ms) =
     (if matches ''error'' k then (case v of JObject inner \<Rightarrow> inner | _ \<Rightarrow> []) else [])
     @ inner_members ms"

fun envelope_well_typed :: "(string \<times> jvalue) list \<Rightarrow> bool" where
  "envelope_well_typed [] = True"
| "envelope_well_typed ((k, v) # ms) =
     ((if matches ''error'' k
       then (case v of JObject inner \<Rightarrow> list_all typed_member inner | JNull \<Rightarrow> True | _ \<Rightarrow> False)
       else True) \<and>
      envelope_well_typed ms)"

definition envelope_type :: "(string \<times> jvalue) list \<Rightarrow> string" where
  "envelope_type ms = final_string ''type'' (inner_members ms) []"

definition envelope_message :: "(string \<times> jvalue) list \<Rightarrow> string" where
  "envelope_message ms = final_string ''message'' (inner_members ms) []"

section \<open>The external key of a field\<close>

text \<open>
  The key under which a field is looked up, as the specification words it: the alias
  tag of the field when one is declared, the name of the field otherwise. The tag is
  the one named \<open>from\<close>.
\<close>

definition external_key :: "field \<Rightarrow> string" where
  "external_key fType =
     (case map_of (Tag fType) ''from'' of
        Some alias \<Rightarrow> alias
      | None \<Rightarrow> Name fType)"

section \<open>Example inputs\<close>

definition example_body_1 :: string where
  \<open>example_body_1 = ''{"id":"rec1","fields":{"Name":"Ada"}}''\<close>

definition example_body_2 :: string where
  \<open>example_body_2 = ''{"id":"rec2","fields":{"Notes":"second"}}''\<close>

definition example_error_body :: string where
  \<open>example_error_body = ''{"error":{"type":"INVALID_FILTER","message":"bad filter"}}''\<close>

definition example_json_value :: "string \<Rightarrow> jvalue option" where
  "example_json_value b =
     (if b = example_body_1 then
        Some (JObject [(''id'', JString ''rec1''), (''fields'', JObject [(''Name'', JString ''Ada'')])])
      else if b = example_body_2 then
        Some (JObject [(''id'', JString ''rec2''), (''fields'', JObject [(''Notes'', JString ''second'')])])
      else if b = example_error_body then
        Some (JObject [(''error'', JObject [(''type'', JString ''INVALID_FILTER''),
                                            (''message'', JString ''bad filter'')])])
      else if b = ''null'' then Some JNull
      else if b = ''[]'' then Some (JArray [])
      else None)"

definition example_http :: http_client where
  "example_http req =
     Inr \<lparr>Body = Inr
       (if URL req = ''https://api.airtable.com/v0/appXXX/Main/rec1?'' then example_body_1
        else if URL req = ''https://api.airtable.com/v0/appXXX/Main/rec2?'' then example_body_2
        else if URL req = ''https://api.airtable.com/v0/appXXX/Main?'' then example_error_body
        else if URL req = ''https://api.airtable.com/v0/appXXX/Empty?'' then ''[]''
        else ''null'')\<rparr>"

definition example_env :: env where
  "example_env =
     \<lparr>json_value = example_json_value, Getenv = (\<lambda>k. []), NewRequest_error = (\<lambda>u. None),
      path_Join = (\<lambda>a b. a @ ''/'' @ b), zero_http_Client = example_http\<rparr>"

definition example_client_0 :: Client_0 where
  "example_client_0 = \<lparr>APIKey = ''key123'', BaseID = ''appXXX'', Version = [], RootURL = []\<rparr>"

definition example_client :: Client where
  "example_client =
     \<lparr>APIKey = ''key123'', BaseID = ''appXXX'', Version = [], RootURL = [],
      HTTPClient = Some example_http\<rparr>"

text \<open>A transport that answers every request with one body, whose value is given.\<close>

definition fixed_http :: "string \<Rightarrow> http_client" where
  "fixed_http body req = Inr \<lparr>Body = Inr body\<rparr>"

definition fixed_env :: "jvalue \<Rightarrow> env" where
  "fixed_env j = example_env\<lparr>json_value := (\<lambda>b. Some j)\<rparr>"

definition fixed_client :: "string \<Rightarrow> Client" where
  "fixed_client body = example_client\<lparr>HTTPClient := Some (fixed_http body)\<rparr>"

definition example_numeric_message_body :: string where
  \<open>example_numeric_message_body = ''{"error":{"type":"INVALID_FILTER","message":5}}''\<close>

definition example_numeric_message :: jvalue where
  "example_numeric_message =
     JObject [(''error'', JObject [(''type'', JString ''INVALID_FILTER''),
                                   (''message'', JNumber 5)])]"



definition example_hook :: hook where
  "example_hook v s =
     (case v of
        JString str \<Rightarrow> Inr (DStruct [DString str], [])
      | JNumber n \<Rightarrow> Inr (DStruct [DString ''number''], [])
      | _ \<Rightarrow> Inr (s, [DString ''formula: unexpected value'']))"

definition silent_hook :: hook where
  "silent_hook v s = Inr (s, [])"

definition panicking_hook :: hook where
  "panicking_hook v s = Inl (Panic ''formula: no value'', s)"

definition example_thumbnail :: rtype where
  "example_thumbnail =
     RStruct None [Field ''URL'' [(''from'', ''url'')] RString,
                   Field ''Width'' [(''from'', ''width'')] RInt]"

definition example_record_type :: "field list" where
  "example_record_type =
     [Field ''When'' [(''from'', ''When?'')] RString,
      Field ''Name'' [] RString,
      Field ''Notes'' [] RString]"

definition example_attachment_type :: "field list" where
  "example_attachment_type =
     [Field ''Attachments'' []
        (RStruct None [Field ''ID'' [(''from'', ''id'')] RString,
                       Field ''URL'' [(''from'', ''url'')] RString])]"



section \<open>Integer fields\<close>

text \<open>
  C6. A slot of kind \<open>int\<close> is handled by \<open>handleInt\<close>. A JSON number is converted
  with \<open>int64\<close> and assigned; whenever the result fits 64 bits it is the number with
  its fraction dropped, towards zero. Every value that is not a number makes the
  mapper panic with the parse error that names the column and the kind \<open>int\<close>.
\<close>

theorem handleInt_truncates_or_fails:
  "dispatch key RInt f v = handleInt key f v \<and>
   Get_switch key RInt f v = handleInt key f v \<and>
   handleInt key f (JNumber n) = Inr (DInt (int64 n)) \<and>
   (- (2 ^ 63) \<le> math_Trunc n \<and> math_Trunc n < 2 ^ 63 \<longrightarrow>
      sint (int64 n) = (if 0 \<le> n then \<lfloor>n\<rfloor> else \<lceil>n\<rceil>)) \<and>
   ((\<forall>x. v \<noteq> JNumber x) \<longrightarrow>
      handleInt key f v =
        Inl (Panic (''PARSE ERROR: could not parse column '' @ [CHR 0x27] @ key @ [CHR 0x27] @ '' as int'')))"
proof -
  have fits: "sint (int64 n) = math_Trunc n"
    if "- (2 ^ 63) \<le> math_Trunc n" "math_Trunc n < 2 ^ 63"
    using that by (simp add: int64_def sint_sbintrunc' signed_take_bit_int_eq_self)
  have towards_zero: "math_Trunc n = (if 0 \<le> n then \<lfloor>n\<rfloor> else \<lceil>n\<rceil>)"
    by (simp add: math_Trunc_def ceiling_def)
  have bad: "handleInt key f v = Inl (parse_error key ''int'')" if "\<forall>x. v \<noteq> JNumber x"
    using that by (cases v) simp_all
  show ?thesis
    using fits bad by (simp add: towards_zero parse_error_def quoted_def)
qed

theorem handleInt_truncates_or_fails_witness:
  "handleInt ''Rating'' (DInt 0) (JNumber (- (7 / 2))) = Inr (DInt (- 3)) \<and>
   - (2 ^ 63) \<le> math_Trunc (- (7 / 2)) \<and> math_Trunc (- (7 / 2)) < 2 ^ 63 \<and>
   sint (int64 (- (7 / 2))) = - 3 \<and>
   (\<forall>x. JString ''five'' \<noteq> JNumber x) \<and>
   dispatch ''Rating'' RInt (DInt 0) (JString ''five'') =
     Inl (Panic ''PARSE ERROR: could not parse column 'Rating' as int'')"
proof -
  have t: "math_Trunc (- (7 / 2)) = - 3"
    by code_simp
  have i: "int64 (- (7 / 2)) = - 3"
    by (simp add: int64_def t)
  show ?thesis
    using handleInt_truncates_or_fails [of "''Rating''" "DInt 0" "JString ''five''" "- (7 / 2)"]
    by (simp add: t i)
qed

section \<open>Requests through a client that is not set up\<close>

lemma set_defaults_keeps:
  "APIKey (set_defaults c) = APIKey c" "BaseID (set_defaults c) = BaseID c"
  "Version (set_defaults c) = (if Version c = [] then defaultVersion else Version c)"
  "RootURL (set_defaults c) = (if RootURL c = [] then defaultRootURL else RootURL c)"
  by (simp_all add: set_defaults_def Let_def)

lemma set_defaults_idem: "set_defaults (set_defaults c) = set_defaults c"
  by (simp add: set_defaults_def Let_def defaultVersion_def defaultRootURL_def)

lemma HTTPClient_set_defaults: "HTTPClient (set_defaults c) = HTTPClient c"
  by (simp add: set_defaults_def Let_def)

text \<open>
  C4. A request through a client whose API key or base identifier is empty ends in the
  setup check: the version with the HTTP client panics, the version of
  \<open>src/airtable.go\<close> returns the setup error, a value apart from the request error
  and from the errors of the transport. In both the call has no event, so the HTTP
  client is not invoked, and the client is as it was.
\<close>

theorem missing_key_or_base_fails_before_sending:
  "(APIKey c = [] \<or> BaseID c = [] \<longrightarrow>
      RequestBytes env c meth endpoint options =
        (c, [], Inl (Panic (if BaseID c = [] then ''airtable: Client missing BaseID''
                            else ''airtable: Client missing APIKey'')))) \<and>
   (APIKey c0 = [] \<or> BaseID c0 = [] \<longrightarrow>
      RequestBytes_0 env c0 resource options =
        (c0, [], None, Some (ErrClientSetupError (if BaseID c0 = [] then ''Client missing BaseID''
                                                  else ''Client missing APIKey'')))) \<and>
   ErrClientSetupError msg \<noteq> ErrClientRequestError msg' \<and>
   ErrClientSetupError msg \<noteq> TransportError msg'"
  by (simp add: RequestBytes_def RequestBytes_0_def checkSetup_def checkSetup_0_def)

theorem missing_key_or_base_fails_before_sending_witness:
  "(APIKey (example_client\<lparr>APIKey := []\<rparr>) = [] \<or> BaseID (example_client\<lparr>APIKey := []\<rparr>) = []) \<and>
   RequestBytes example_env (example_client\<lparr>APIKey := []\<rparr>) ''GET'' ''Main'' None =
     (example_client\<lparr>APIKey := []\<rparr>, [], Inl (Panic ''airtable: Client missing APIKey'')) \<and>
   (APIKey (example_client_0\<lparr>BaseID := []\<rparr>) = [] \<or> BaseID (example_client_0\<lparr>BaseID := []\<rparr>) = []) \<and>
   RequestBytes_0 example_env (example_client_0\<lparr>BaseID := []\<rparr>) ''Main'' None =
     (example_client_0\<lparr>BaseID := []\<rparr>, [], None, Some (ErrClientSetupError ''Client missing BaseID''))"
  using missing_key_or_base_fails_before_sending
    [where c = "example_client\<lparr>APIKey := []\<rparr>" and env = example_env
       and meth = "''GET''" and endpoint = "''Main''" and options = None
       and ?c0.0 = "example_client_0\<lparr>BaseID := []\<rparr>" and resource = "''Main''"]
  by (simp add: example_client_def example_client_0_def)

section \<open>The defaults of the setup check\<close>

text \<open>
  C9 as stated fails. A client with an empty version and root URL whose API key or
  base identifier is missing keeps both fields empty through a request and through a
  setup check: the check ends before the defaults are assigned.
\<close>

theorem failed_setup_sets_no_default:
  "RequestBytes example_env (example_client\<lparr>APIKey := []\<rparr>) ''GET'' ''Main'' None =
     (example_client\<lparr>APIKey := []\<rparr>, [], Inl (Panic ''airtable: Client missing APIKey'')) \<and>
   Version (example_client\<lparr>APIKey := []\<rparr>) = [] \<and>
   RootURL (example_client\<lparr>APIKey := []\<rparr>) = [] \<and>
   checkSetup_0 (example_client_0\<lparr>BaseID := []\<rparr>) =
     (Some (ErrClientSetupError ''Client missing BaseID''), example_client_0\<lparr>BaseID := []\<rparr>) \<and>
   Version (example_client_0\<lparr>BaseID := []\<rparr>) = [] \<and>
   RootURL (example_client_0\<lparr>BaseID := []\<rparr>) = []"
  by (simp add: RequestBytes_def checkSetup_def checkSetup_0_def example_client_def
      example_client_0_def)

lemma RequestBytes_client:
  "checkSetup c = Inr c' \<Longrightarrow> fst (RequestBytes env c meth endpoint options) = c'"
  by (simp add: RequestBytes_def Let_def split: option.splits)

lemma RequestBytes_0_client:
  "fst (RequestBytes_0 env c resource options) = snd (checkSetup_0 c)"
  by (simp add: RequestBytes_0_def Let_def split: option.splits prod.splits)

text \<open>
  C9, amended. When the setup check passes (base identifier and API key are set, and
  the HTTP client where the record has one), the check and the first request leave the
  client with an empty version set to \<open>v0\<close> and an empty root URL set to
  \<open>https://api.airtable.com\<close>, both otherwise unchanged; a later check leaves that
  client as it is. No request changes the API key or the base identifier.
\<close>

theorem passed_setup_sets_defaults_for_good:
  "(BaseID c \<noteq> [] \<and> APIKey c \<noteq> [] \<and> HTTPClient c \<noteq> None \<longrightarrow>
      checkSetup c = Inr (set_defaults c) \<and>
      fst (RequestBytes env c meth endpoint options) = set_defaults c \<and>
      checkSetup (set_defaults c) = Inr (set_defaults c)) \<and>
   (BaseID c0 \<noteq> [] \<and> APIKey c0 \<noteq> [] \<longrightarrow>
      checkSetup_0 c0 = (None, set_defaults c0) \<and>
      fst (RequestBytes_0 env c0 resource options) = set_defaults c0 \<and>
      checkSetup_0 (set_defaults c0) = (None, set_defaults c0)) \<and>
   Version (set_defaults c) = (if Version c = [] then ''v0'' else Version c) \<and>
   RootURL (set_defaults c) = (if RootURL c = [] then ''https://api.airtable.com'' else RootURL c) \<and>
   APIKey (set_defaults c) = APIKey c \<and> BaseID (set_defaults c) = BaseID c \<and>
   APIKey (fst (RequestBytes env c meth endpoint options)) = APIKey c \<and>
   BaseID (fst (RequestBytes env c meth endpoint options)) = BaseID c \<and>
   APIKey (fst (RequestBytes_0 env c0 resource options)) = APIKey c0 \<and>
   BaseID (fst (RequestBytes_0 env c0 resource options)) = BaseID c0"
proof -
  have new: "checkSetup c = Inr (set_defaults c) \<and>
      fst (RequestBytes env c meth endpoint options) = set_defaults c \<and>
      checkSetup (set_defaults c) = Inr (set_defaults c)"
    if "BaseID c \<noteq> []" "APIKey c \<noteq> []" "HTTPClient c \<noteq> None"
  proof -
    have 1: "checkSetup c = Inr (set_defaults c)"
      using that by (simp add: checkSetup_def)
    have 2: "checkSetup (set_defaults c) = Inr (set_defaults c)"
      using that
      by (simp add: checkSetup_def set_defaults_keeps HTTPClient_set_defaults set_defaults_idem)
    show ?thesis
      using 1 2 RequestBytes_client [OF 1] by simp
  qed
  have old: "checkSetup_0 c0 = (None, set_defaults c0) \<and>
      fst (RequestBytes_0 env c0 resource options) = set_defaults c0 \<and>
      checkSetup_0 (set_defaults c0) = (None, set_defaults c0)"
    if "BaseID c0 \<noteq> []" "APIKey c0 \<noteq> []"
    using that
    by (simp add: RequestBytes_0_client checkSetup_0_def set_defaults_keeps set_defaults_idem)
  have keys: "APIKey (fst (RequestBytes env c meth endpoint options)) = APIKey c \<and>
      BaseID (fst (RequestBytes env c meth endpoint options)) = BaseID c"
  proof (cases "checkSetup c")
    case (Inl p)
    then show ?thesis by (simp add: RequestBytes_def)
  next
    case (Inr c')
    then have "c' = set_defaults c"
      by (auto simp: checkSetup_def split: if_splits)
    with Inr show ?thesis
      using RequestBytes_client [OF Inr] by (simp add: set_defaults_keeps)
  qed
  have keys0: "APIKey (fst (RequestBytes_0 env c0 resource options)) = APIKey c0 \<and>
      BaseID (fst (RequestBytes_0 env c0 resource options)) = BaseID c0"
    by (simp add: RequestBytes_0_client checkSetup_0_def set_defaults_keeps)
  show ?thesis
    using new old keys keys0
    by (simp add: set_defaults_keeps defaultVersion_def defaultRootURL_def)
qed

theorem passed_setup_sets_defaults_for_good_witness:
  "BaseID example_client \<noteq> [] \<and> APIKey example_client \<noteq> [] \<and> HTTPClient example_client \<noteq> None \<and>
   fst (RequestBytes example_env example_client ''GET'' ''Main'' None) =
     example_client\<lparr>Version := ''v0'', RootURL := ''https://api.airtable.com''\<rparr> \<and>
   checkSetup (example_client\<lparr>Version := ''v0'', RootURL := ''https://api.airtable.com''\<rparr>) =
     Inr (example_client\<lparr>Version := ''v0'', RootURL := ''https://api.airtable.com''\<rparr>) \<and>
   BaseID example_client_0 \<noteq> [] \<and> APIKey example_client_0 \<noteq> [] \<and>
   checkSetup_0 example_client_0 =
     (None, example_client_0\<lparr>Version := ''v0'', RootURL := ''https://api.airtable.com''\<rparr>)"
proof -
  have 1: "set_defaults example_client =
      example_client\<lparr>Version := ''v0'', RootURL := ''https://api.airtable.com''\<rparr>"
    by (simp add: set_defaults_def example_client_def defaultVersion_def defaultRootURL_def)
  have 2: "set_defaults example_client_0 =
      example_client_0\<lparr>Version := ''v0'', RootURL := ''https://api.airtable.com''\<rparr>"
    by (simp add: set_defaults_def example_client_0_def defaultVersion_def defaultRootURL_def)
  have 3: "BaseID example_client \<noteq> [] \<and> APIKey example_client \<noteq> [] \<and>
      HTTPClient example_client \<noteq> None \<and> BaseID example_client_0 \<noteq> [] \<and>
      APIKey example_client_0 \<noteq> []"
    by (simp add: example_client_def example_client_0_def)
  show ?thesis
    using passed_setup_sets_defaults_for_good
      [where c = example_client and ?c0.0 = example_client_0 and env = example_env
         and meth = "''GET''" and endpoint = "''Main''" and options = None
         and resource = "''Main''"]
      3
    by (simp add: 1 2)
qed

section \<open>Error envelopes\<close>

lemma RequestBytes_answer:
  assumes "BaseID c \<noteq> []" "APIKey c \<noteq> []" "HTTPClient c = Some h"
    and "NewRequest_error env (makeURL (set_defaults c) endpoint (Encode options)) = None"
    and "h (GET_request (makeURL (set_defaults c) endpoint (Encode options)) (APIKey c)) =
      Inr \<lparr>Body = Inr b\<rparr>"
  shows "snd (snd (RequestBytes env c meth endpoint options)) =
    Inr (Some b, checkErrorResponse env b)"
proof -
  have "checkSetup c = Inr (set_defaults c)"
    using assms(1-3) by (simp add: checkSetup_def)
  moreover have "HTTPClient (set_defaults c) = Some h" "APIKey (set_defaults c) = APIKey c"
    using assms(3) by (simp_all add: set_defaults_def Let_def)
  ultimately show ?thesis
    using assms(4,5) by (simp add: RequestBytes_def Let_def send_def split: option.splits)
qed

lemma type_not_message: "matches ''type'' k \<Longrightarrow> \<not> matches ''message'' k"
  by (auto simp: matches_def upper_def)

lemma final_string_append:
  "final_string n (xs @ ys) cur = final_string n ys (final_string n xs cur)"
  by (simp add: final_string_def)

lemma final_string_Nil: "final_string n [] cur = cur"
  by (simp add: final_string_def)

lemma final_string_Cons:
  "final_string n ((k, v) # ms) cur =
     final_string n ms (if matches n k then (case v of JString s \<Rightarrow> s | _ \<Rightarrow> cur) else cur)"
  by (simp add: final_string_def)

text \<open>A member of the right kind leaves the saved error as it is.\<close>

lemma decode_Error_member_typed:
  assumes "typed_member (k, v)"
  shows "decode_Error_member (k, v) (r, saved) =
    (r\<lparr>Error_Type := final_string ''type'' [(k, v)] (Error_Type r),
       Error_Message := final_string ''message'' [(k, v)] (Error_Message r)\<rparr>, saved)"
proof (cases "matches ''type'' k")
  case True
  with assms type_not_message [OF True] show ?thesis
    by (cases v) (simp_all add: final_string_Cons final_string_Nil)
next
  case False
  show ?thesis
  proof (cases "matches ''message'' k")
    case True
    with assms False show ?thesis
      by (cases v) (simp_all add: final_string_Cons final_string_Nil)
  next
    case nomsg: False
    with False show ?thesis
      by (simp add: final_string_Cons final_string_Nil)
  qed
qed

lemma fold_decode_Error_member:
  assumes "list_all typed_member inner"
  shows "fold decode_Error_member inner (r, saved) =
    (r\<lparr>Error_Type := final_string ''type'' inner (Error_Type r),
       Error_Message := final_string ''message'' inner (Error_Message r)\<rparr>, saved)"
  using assms
proof (induction inner arbitrary: r)
  case Nil
  then show ?case by (simp add: final_string_Nil)
next
  case (Cons x inner)
  obtain k v where x: "x = (k, v)" by (cases x)
  from Cons.prems x have t: "typed_member (k, v)" and rest: "list_all typed_member inner"
    by simp_all
  have "fold decode_Error_member (x # inner) (r, saved) =
      fold decode_Error_member inner (decode_Error_member (k, v) (r, saved))"
    by (simp add: x del: decode_Error_member.simps)
  also have "\<dots> = fold decode_Error_member inner
      (r\<lparr>Error_Type := final_string ''type'' [(k, v)] (Error_Type r),
         Error_Message := final_string ''message'' [(k, v)] (Error_Message r)\<rparr>, saved)"
    by (simp only: decode_Error_member_typed [OF t])
  also have "\<dots> = (r\<lparr>Error_Type := final_string ''type'' (x # inner) (Error_Type r),
       Error_Message := final_string ''message'' (x # inner) (Error_Message r)\<rparr>, saved)"
    by (simp add: Cons.IH [OF rest] x final_string_def)
  finally show ?case .
qed

text \<open>Once an error is saved it stays, whatever follows.\<close>

lemma decode_Error_member_keeps:
  "snd (decode_Error_member x (r, Some e)) = Some e"
  by (cases x) (simp add: saveError_def split: jvalue.splits)

lemma fold_decode_Error_member_keeps:
  "snd (fold decode_Error_member inner (r, Some e)) = Some e"
proof (induction inner arbitrary: r)
  case Nil
  then show ?case by simp
next
  case (Cons x inner)
  obtain r' where "decode_Error_member x (r, Some e) = (r', Some e)"
    using decode_Error_member_keeps [of x r e] by (cases "decode_Error_member x (r, Some e)") simp
  then show ?case using Cons.IH by simp
qed

lemma decode_Error_member_untyped:
  assumes "\<not> typed_member x"
  shows "\<exists>what type. snd (decode_Error_member x (r, None)) = Some (UnmarshalTypeError what type)"
  using assms by (cases x) (auto simp: saveError_def split: jvalue.splits if_splits)

lemma fold_decode_Error_member_untyped:
  assumes "\<not> list_all typed_member inner"
  shows "\<exists>what type. snd (fold decode_Error_member inner (r, None)) =
    Some (UnmarshalTypeError what type)"
  using assms
proof (induction inner arbitrary: r)
  case Nil
  then show ?case by simp
next
  case (Cons x inner)
  show ?case
  proof (cases "typed_member x")
    case True
    obtain k v where x: "x = (k, v)" by (cases x)
    from Cons.prems True have "\<not> list_all typed_member inner" by simp
    from Cons.IH [OF this] True x show ?thesis
      by (simp add: decode_Error_member_typed del: decode_Error_member.simps)
  next
    case False
    from decode_Error_member_untyped [OF False, of r] obtain what type r' where
      "decode_Error_member x (r, None) = (r', Some (UnmarshalTypeError what type))"
      by (cases "decode_Error_member x (r, None)") auto
    then show ?thesis
      by (simp add: fold_decode_Error_member_keeps)
  qed
qed

lemma decode_errorResponse_member_keeps:
  "snd (decode_errorResponse_member x (r, Some e)) = Some e"
  by (cases x) (simp add: saveError_def fold_decode_Error_member_keeps split: jvalue.splits)

lemma fold_decode_errorResponse_member_keeps:
  "snd (fold decode_errorResponse_member ms (r, Some e)) = Some e"
proof (induction ms arbitrary: r)
  case Nil
  then show ?case by simp
next
  case (Cons x ms)
  obtain r' where "decode_errorResponse_member x (r, Some e) = (r', Some e)"
    using decode_errorResponse_member_keeps [of x r e]
    by (cases "decode_errorResponse_member x (r, Some e)") simp
  then show ?case using Cons.IH by simp
qed

lemma fold_decode_errorResponse_member:
  assumes "envelope_well_typed ms"
  shows "fold decode_errorResponse_member ms (r, saved) =
    (r\<lparr>Error_Type := final_string ''type'' (inner_members ms) (Error_Type r),
       Error_Message := final_string ''message'' (inner_members ms) (Error_Message r)\<rparr>, saved)"
  using assms
proof (induction ms arbitrary: r)
  case Nil
  then show ?case by (simp add: final_string_Nil)
next
  case (Cons x ms)
  obtain k v where x: "x = (k, v)" by (cases x)
  from Cons.prems x have rest: "envelope_well_typed ms" by simp
  show ?case
  proof (cases "matches ''error'' k")
    case False
    with x show ?thesis
      by (simp add: Cons.IH [OF rest])
  next
    case True
    from Cons.prems x True consider (obj) inner where "v = JObject inner" "list_all typed_member inner"
      | (null) "v = JNull"
      by (cases v) simp_all
    then show ?thesis
    proof cases
      case obj
      with x True show ?thesis
        by (simp add: fold_decode_Error_member [OF obj(2)] Cons.IH [OF rest] final_string_append)
    next
      case null
      with x True show ?thesis
        by (simp add: Cons.IH [OF rest])
    qed
  qed
qed

lemma fold_decode_errorResponse_member_untyped:
  assumes "\<not> envelope_well_typed ms"
  shows "\<exists>what type. snd (fold decode_errorResponse_member ms (r, None)) =
    Some (UnmarshalTypeError what type)"
  using assms
proof (induction ms arbitrary: r)
  case Nil
  then show ?case by simp
next
  case (Cons x ms)
  obtain k v where x: "x = (k, v)" by (cases x)
  let ?here = "if matches ''error'' k
       then (case v of JObject inner \<Rightarrow> list_all typed_member inner | JNull \<Rightarrow> True | _ \<Rightarrow> False)
       else True"
  show ?case
  proof (cases ?here)
    case True
    with Cons.prems x have bad: "\<not> envelope_well_typed ms" by simp
    from True have "envelope_well_typed [(k, v)]" by simp
    from fold_decode_errorResponse_member [OF this, of r None]
    obtain r' where "decode_errorResponse_member (k, v) (r, None) = (r', None)"
      by simp
    with Cons.IH [OF bad, of r'] x show ?thesis by simp
  next
    case False
    then have m: "matches ''error'' k" by (simp split: if_splits)
    have "\<exists>what type. snd (decode_errorResponse_member (k, v) (r, None)) =
        Some (UnmarshalTypeError what type)"
    proof (cases v)
      case (JObject inner)
      with False m have "\<not> list_all typed_member inner" by simp
      from fold_decode_Error_member_untyped [OF this, of r] JObject m show ?thesis by simp
    qed (use False m in \<open>simp_all add: saveError_def\<close>)
    then obtain what type r' where
      "decode_errorResponse_member (k, v) (r, None) = (r', Some (UnmarshalTypeError what type))"
      by (cases "decode_errorResponse_member (k, v) (r, None)") auto
    with x show ?thesis
      by (simp add: fold_decode_errorResponse_member_keeps)
  qed
qed

lemma checkErrorResponse_object:
  assumes "json_value env b = Some (JObject ms)"
  shows "envelope_well_typed ms \<Longrightarrow>
      checkErrorResponse env b =
        (if envelope_type ms \<noteq> [] then Some (ErrClientRequestError (envelope_message ms)) else None)"
    and "\<not> envelope_well_typed ms \<Longrightarrow>
      \<exists>what type. checkErrorResponse env b = Some (UnmarshalTypeError what type)"
proof -
  show "checkErrorResponse env b =
        (if envelope_type ms \<noteq> [] then Some (ErrClientRequestError (envelope_message ms)) else None)"
    if "envelope_well_typed ms"
    using assms
    by (simp add: checkErrorResponse_def Unmarshal_errorResponse_def
        fold_decode_errorResponse_member [OF that] envelope_type_def envelope_message_def)
  show "\<exists>what type. checkErrorResponse env b = Some (UnmarshalTypeError what type)"
    if "\<not> envelope_well_typed ms"
  proof -
    from fold_decode_errorResponse_member_untyped [OF that,
        of "\<lparr>Error_Type = [], Error_Message = []\<rparr>"]
    obtain what type r' where
      "fold decode_errorResponse_member ms (\<lparr>Error_Type = [], Error_Message = []\<rparr>, None) =
        (r', Some (UnmarshalTypeError what type))"
      by (cases "fold decode_errorResponse_member ms (\<lparr>Error_Type = [], Error_Message = []\<rparr>, None)")
        auto
    with assms show ?thesis
      by (simp add: checkErrorResponse_def Unmarshal_errorResponse_def)
  qed
qed

text \<open>
  C3 as stated fails. The body is an object with an error envelope whose type is
  not empty and whose message is a number. The request returns the bytes of the body
  with the type error of the decoder, not with the request error: the decoder
  reports the mismatch before the type of the envelope is looked at.
\<close>

theorem numeric_message_gives_decode_error:
  "RequestBytes (fixed_env example_numeric_message) (fixed_client example_numeric_message_body)
     ''GET'' ''Main'' None =
     (fixed_client example_numeric_message_body
        \<lparr>Version := ''v0'', RootURL := ''https://api.airtable.com''\<rparr>,
      [Take, Do (GET_request ''https://api.airtable.com/v0/appXXX/Main?'' ''key123'')],
      Inr (Some example_numeric_message_body, Some (UnmarshalTypeError ''number'' ''string''))) \<and>
   json_value (fixed_env example_numeric_message) example_numeric_message_body =
     Some (JObject [(''error'', JObject [(''type'', JString ''INVALID_FILTER''),
                                         (''message'', JNumber 5)])])"
proof -
  let ?c = "fixed_client example_numeric_message_body"
  let ?c' = "?c\<lparr>Version := ''v0'', RootURL := ''https://api.airtable.com''\<rparr>"
  have 1: "checkSetup ?c = Inr ?c'"
    by (simp add: checkSetup_def set_defaults_def fixed_client_def example_client_def
        defaultVersion_def defaultRootURL_def)
  have 2: "json_value (fixed_env example_numeric_message) b = Some example_numeric_message" for b
    by (simp add: fixed_env_def)
  have 3: "checkErrorResponse (fixed_env example_numeric_message) b =
      Some (UnmarshalTypeError ''number'' ''string'')" for b
  proof -
    have "snd (Unmarshal_errorResponse example_numeric_message) =
        Some (UnmarshalTypeError ''number'' ''string'')"
      by (simp add: example_numeric_message_def Unmarshal_errorResponse_def matches_def upper_def
          saveError_def)
    then show ?thesis
      by (cases "Unmarshal_errorResponse example_numeric_message")
        (simp add: checkErrorResponse_def 2)
  qed
  have 4: "send (fixed_http example_numeric_message_body) (fixed_env example_numeric_message) req =
      (Some example_numeric_message_body, Some (UnmarshalTypeError ''number'' ''string''))" for req
    by (simp add: send_def fixed_http_def 3)
  have 5: "makeURL ?c' ''Main'' (Encode None) = ''https://api.airtable.com/v0/appXXX/Main?''"
    by (simp add: makeURL_def Encode_def fixed_client_def example_client_def)
  have 6: "HTTPClient ?c' = Some (fixed_http example_numeric_message_body)" "APIKey ?c' = ''key123''"
    by (simp_all add: fixed_client_def example_client_def)
  have 7: "NewRequest_error (fixed_env example_numeric_message) u = None"
    "Getenv (fixed_env example_numeric_message) k = []" for u k
    by (simp_all add: fixed_env_def example_env_def)
  have sent: "RequestBytes (fixed_env example_numeric_message) ?c ''GET'' ''Main'' None =
     (?c', [Take, Do (GET_request ''https://api.airtable.com/v0/appXXX/Main?'' ''key123'')],
      Inr (Some example_numeric_message_body, Some (UnmarshalTypeError ''number'' ''string'')))"
    by (simp add: RequestBytes_def 1 4 5 6 7)
  have val: "json_value (fixed_env example_numeric_message) example_numeric_message_body =
     Some (JObject [(''error'', JObject [(''type'', JString ''INVALID_FILTER''),
                                         (''message'', JNumber 5)])])"
    using 2 [of example_numeric_message_body] by (simp add: example_numeric_message_def)
  from sent val show ?thesis by simp
qed

text \<open>
  C3, amended. The client is set up and its HTTP client answers the request with a
  body that is an object. When the envelope in it is well typed and its type is not
  empty, \<open>RequestBytes\<close> returns the bytes of the body together with
  \<open>ErrClientRequestError\<close> carrying the message of the envelope, which is neither the
  syntax error nor the type error of the decoder. When the envelope is not well
  typed, \<open>RequestBytes\<close> returns the bytes together with a type error of the decoder,
  whatever the type of the envelope is.
\<close>

theorem well_typed_envelope_gives_request_error:
  assumes "BaseID c \<noteq> []" "APIKey c \<noteq> []" "HTTPClient c = Some h"
    and "NewRequest_error env (makeURL (set_defaults c) endpoint (Encode options)) = None"
    and "h (GET_request (makeURL (set_defaults c) endpoint (Encode options)) (APIKey c)) =
      Inr \<lparr>Body = Inr b\<rparr>"
    and "json_value env b = Some (JObject ms)"
  shows "(envelope_well_typed ms \<and> envelope_type ms \<noteq> [] \<longrightarrow>
      snd (snd (RequestBytes env c meth endpoint options)) =
        Inr (Some b, Some (ErrClientRequestError (envelope_message ms)))) \<and>
    (\<not> envelope_well_typed ms \<longrightarrow>
      (\<exists>what type. snd (snd (RequestBytes env c meth endpoint options)) =
        Inr (Some b, Some (UnmarshalTypeError what type)))) \<and>
    ErrClientRequestError msg \<noteq> SyntaxError \<and>
    ErrClientRequestError msg \<noteq> UnmarshalTypeError what' type'"
  using RequestBytes_answer [OF assms(1-5), of meth] checkErrorResponse_object [OF assms(6)]
  by auto

lemma example_url:
  "makeURL (set_defaults example_client) endpoint (Encode None) =
    ''https://api.airtable.com/v0/appXXX/'' @ endpoint @ ''?''"
  by (simp add: makeURL_def set_defaults_def example_client_def Encode_def defaultVersion_def
      defaultRootURL_def)

lemma example_setup:
  "BaseID example_client \<noteq> []" "APIKey example_client \<noteq> []"
  "HTTPClient example_client = Some example_http"
  "NewRequest_error example_env u = None"
  by (simp_all add: example_client_def example_env_def)

lemma fixed_setup:
  "BaseID (fixed_client body) \<noteq> []" "APIKey (fixed_client body) \<noteq> []"
  "HTTPClient (fixed_client body) = Some (fixed_http body)"
  "NewRequest_error (fixed_env j) u = None"
  "fixed_http body req = Inr \<lparr>Body = Inr body\<rparr>"
  "json_value (fixed_env j) b = Some j"
  by (simp_all add: fixed_client_def fixed_env_def fixed_http_def example_client_def example_env_def)

lemma example_envelope:
  "json_value example_env example_error_body =
     Some (JObject [(''error'', JObject [(''type'', JString ''INVALID_FILTER''),
                                         (''message'', JString ''bad filter'')])])"
  "envelope_well_typed [(''error'', JObject [(''type'', JString ''INVALID_FILTER''),
                                         (''message'', JString ''bad filter'')])]"
  "envelope_type [(''error'', JObject [(''type'', JString ''INVALID_FILTER''),
                                         (''message'', JString ''bad filter'')])] = ''INVALID_FILTER''"
  "envelope_message [(''error'', JObject [(''type'', JString ''INVALID_FILTER''),
                                         (''message'', JString ''bad filter'')])] = ''bad filter''"
  "\<not> envelope_well_typed [(''error'', JObject [(''type'', JString ''INVALID_FILTER''),
                                         (''message'', JNumber 5)])]"
  by (simp_all add: example_env_def example_json_value_def example_body_1_def example_body_2_def
      example_error_body_def envelope_type_def envelope_message_def final_string_def
      matches_def upper_def)

theorem well_typed_envelope_gives_request_error_witness:
  "BaseID example_client \<noteq> [] \<and> APIKey example_client \<noteq> [] \<and>
   HTTPClient example_client = Some example_http \<and>
   NewRequest_error example_env (makeURL (set_defaults example_client) ''Main'' (Encode None)) = None \<and>
   example_http (GET_request (makeURL (set_defaults example_client) ''Main'' (Encode None))
       (APIKey example_client)) = Inr \<lparr>Body = Inr example_error_body\<rparr> \<and>
   json_value example_env example_error_body =
     Some (JObject [(''error'', JObject [(''type'', JString ''INVALID_FILTER''),
                                         (''message'', JString ''bad filter'')])]) \<and>
   envelope_well_typed [(''error'', JObject [(''type'', JString ''INVALID_FILTER''),
                                         (''message'', JString ''bad filter'')])] \<and>
   envelope_type [(''error'', JObject [(''type'', JString ''INVALID_FILTER''),
                                         (''message'', JString ''bad filter'')])] = ''INVALID_FILTER'' \<and>
   snd (snd (RequestBytes example_env example_client ''GET'' ''Main'' None)) =
     Inr (Some example_error_body, Some (ErrClientRequestError ''bad filter'')) \<and>
   \<not> envelope_well_typed [(''error'', JObject [(''type'', JString ''INVALID_FILTER''),
                                         (''message'', JNumber 5)])] \<and>
   (\<exists>what type.
      snd (snd (RequestBytes (fixed_env example_numeric_message)
                  (fixed_client example_numeric_message_body) ''GET'' ''Main'' None)) =
        Inr (Some example_numeric_message_body, Some (UnmarshalTypeError what type)))"
proof -
  have sent: "example_http (GET_request (makeURL (set_defaults example_client) ''Main'' (Encode None))
       (APIKey example_client)) = Inr \<lparr>Body = Inr example_error_body\<rparr>"
    by (simp add: example_url example_http_def GET_request_def)
  have val: "json_value (fixed_env example_numeric_message) example_numeric_message_body =
      Some (JObject [(''error'', JObject [(''type'', JString ''INVALID_FILTER''),
                                          (''message'', JNumber 5)])])"
    by (simp add: fixed_setup example_numeric_message_def)
  show ?thesis
    using well_typed_envelope_gives_request_error
      [OF example_setup(1,2,3) example_setup(4) sent example_envelope(1), where meth = "''GET''"]
      well_typed_envelope_gives_request_error
      [OF fixed_setup(1,2,3) fixed_setup(4) fixed_setup(5) val, where meth = "''GET''"
         and options = None and endpoint = "''Main''"]
      example_setup sent example_envelope
    by simp
qed

section \<open>Bodies that are not objects\<close>

text \<open>
  C10 as stated fails. The body \<open>null\<close> is valid JSON and not an object, and the
  request returns its bytes with a nil error: decoding \<open>null\<close> into a struct does
  nothing.
\<close>

theorem null_body_is_no_error:
  "RequestBytes example_env example_client ''GET'' ''Other'' None =
     (example_client\<lparr>Version := ''v0'', RootURL := ''https://api.airtable.com''\<rparr>,
      [Take, Do (GET_request ''https://api.airtable.com/v0/appXXX/Other?'' ''key123'')],
      Inr (Some ''null'', None)) \<and>
   json_value example_env ''null'' = Some JNull"
proof -
  have 1: "checkSetup example_client =
      Inr (example_client\<lparr>Version := ''v0'', RootURL := ''https://api.airtable.com''\<rparr>)"
    by (simp add: checkSetup_def set_defaults_def example_client_def defaultVersion_def
        defaultRootURL_def)
  have 2: "json_value example_env ''null'' = Some JNull"
    by (simp add: example_env_def example_json_value_def example_body_1_def example_body_2_def
        example_error_body_def)
  have 3: "checkErrorResponse example_env ''null'' = None"
    by (simp add: checkErrorResponse_def 2 Unmarshal_errorResponse_def)
  have 4: "send example_http example_env
      (GET_request ''https://api.airtable.com/v0/appXXX/Other?'' ''key123'') = (Some ''null'', None)"
    by (simp add: send_def example_http_def GET_request_def 3)
  have 5: "makeURL (example_client\<lparr>Version := ''v0'', RootURL := ''https://api.airtable.com''\<rparr>)
      ''Other'' (Encode None) = ''https://api.airtable.com/v0/appXXX/Other?''"
    by (simp add: makeURL_def Encode_def example_client_def)
  have 6: "HTTPClient (example_client\<lparr>Version := ''v0'', RootURL := ''https://api.airtable.com''\<rparr>) =
      Some example_http"
    "APIKey (example_client\<lparr>Version := ''v0'', RootURL := ''https://api.airtable.com''\<rparr>) =
      ''key123''"
    by (simp_all add: example_client_def)
  have 7: "NewRequest_error example_env u = None" "Getenv example_env k = []" for u k
    by (simp_all add: example_env_def)
  show ?thesis
    by (simp add: RequestBytes_def 1 2 4 5 6 7)
qed

text \<open>
  C10, amended. The client is set up and its HTTP client answers the request with a
  body that is valid JSON and not an object. When the value is an array, a string, a
  number or a boolean, \<open>RequestBytes\<close> returns the bytes together with the type error
  of the decoder, which names the kind of the value; when it is \<open>null\<close>, it
  returns the bytes and no error.
\<close>

theorem non_object_body_fails_unless_null:
  assumes "BaseID c \<noteq> []" "APIKey c \<noteq> []" "HTTPClient c = Some h"
    and "NewRequest_error env (makeURL (set_defaults c) endpoint (Encode options)) = None"
    and "h (GET_request (makeURL (set_defaults c) endpoint (Encode options)) (APIKey c)) =
      Inr \<lparr>Body = Inr b\<rparr>"
    and "json_value env b = Some j" "\<forall>ms. j \<noteq> JObject ms"
  shows "snd (snd (RequestBytes env c meth endpoint options)) =
      Inr (Some b, if j = JNull then None
                   else Some (UnmarshalTypeError (Value_name j) ''airtable.errorResponse''))"
proof -
  have "checkErrorResponse env b =
      (if j = JNull then None
       else Some (UnmarshalTypeError (Value_name j) ''airtable.errorResponse''))"
    using assms(6,7) by (cases j) (simp_all add: checkErrorResponse_def Unmarshal_errorResponse_def)
  then show ?thesis
    using RequestBytes_answer [OF assms(1-5)] by simp
qed

theorem non_object_body_fails_unless_null_witness:
  "BaseID example_client \<noteq> [] \<and> APIKey example_client \<noteq> [] \<and>
   HTTPClient example_client = Some example_http \<and>
   NewRequest_error example_env (makeURL (set_defaults example_client) ''Empty'' (Encode None)) = None \<and>
   example_http (GET_request (makeURL (set_defaults example_client) ''Empty'' (Encode None))
       (APIKey example_client)) = Inr \<lparr>Body = Inr ''[]''\<rparr> \<and>
   json_value example_env ''[]'' = Some (JArray []) \<and> (\<forall>ms. JArray [] \<noteq> JObject ms) \<and>
   snd (snd (RequestBytes example_env example_client ''GET'' ''Empty'' None)) =
     Inr (Some ''[]'', Some (UnmarshalTypeError ''array'' ''airtable.errorResponse''))"
proof -
  have sent: "example_http (GET_request (makeURL (set_defaults example_client) ''Empty'' (Encode None))
       (APIKey example_client)) = Inr \<lparr>Body = Inr ''[]''\<rparr>"
    by (simp add: example_url example_http_def GET_request_def)
  have val: "json_value example_env ''[]'' = Some (JArray [])"
    by (simp add: example_env_def example_json_value_def example_body_1_def example_body_2_def
        example_error_body_def)
  have no: "\<forall>ms. JArray [] \<noteq> JObject ms"
    by simp
  show ?thesis
    using non_object_body_fails_unless_null
      [OF example_setup(1,2,3) example_setup(4) sent val no, where meth = "''GET''"]
      example_setup sent val
    by simp
qed

section \<open>The custom parse hook\<close>

text \<open>
  C2 as stated fails. A hook that hands back an error as its result and a hook that
  hands back nothing give the same outcome of \<open>handleStruct\<close>: the results of the
  call are dropped.
\<close>

theorem hook_result_is_dropped:
  "example_hook (JBool True) (DStruct [DString []]) =
     Inr (DStruct [DString []], [DString ''formula: unexpected value'']) \<and>
   handleStruct ''Formula'' (Some example_hook) [] (DStruct [DString []]) (JBool True) =
     Inr (DStruct [DString []]) \<and>
   silent_hook (JBool True) (DStruct [DString []]) = Inr (DStruct [DString []], []) \<and>
   handleStruct ''Formula'' (Some silent_hook) [] (DStruct [DString []]) (JBool True) =
     Inr (DStruct [DString []])"
  by (simp add: example_hook_def silent_hook_def)

text \<open>
  C2, amended. For a struct slot whose type has the \<open>SelfParse\<close> method, the mapper
  calls the method with the raw value and does nothing else, in a nested struct and
  a slice as in the loop of \<open>Get\<close> for a value that is not \<open>nil\<close>: a panic of the method
  is the panic of the mapper, and when the method returns, the slot is as the method
  left it and the results of the method are dropped. The outcome does not depend on
  the fields of the struct or on the column name, whatever the raw value is, so the
  structural path is not taken.
\<close>

theorem hook_overrides_structural_path:
  "dispatch key (RStruct (Some maybeParse) fs) s v = handleStruct key (Some maybeParse) fs s v \<and>
   (v \<noteq> JNull \<longrightarrow>
      Get_field key (RStruct (Some maybeParse) fs) s v = handleStruct key (Some maybeParse) fs s v) \<and>
   (maybeParse v s = Inr (s', results) \<longrightarrow> handleStruct key (Some maybeParse) fs s v = Inr s') \<and>
   (maybeParse v s = Inl (p, s'') \<longrightarrow> handleStruct key (Some maybeParse) fs s v = Inl p) \<and>
   handleStruct key (Some maybeParse) fs s v = handleStruct key' (Some maybeParse) fs' s v"
  by (simp add: Get_field_def)

theorem hook_overrides_structural_path_witness:
  "JString ''42'' \<noteq> JNull \<and>
   example_hook (JString ''42'') (DStruct [DString []]) = Inr (DStruct [DString ''42''], []) \<and>
   Get_field ''Formula'' (RStruct (Some example_hook) [Field ''M'' [] (ROther ''map'')])
     (DStruct [DString []]) (JString ''42'') = Inr (DStruct [DString ''42'']) \<and>
   panicking_hook (JString ''42'') (DStruct [DString []]) =
     Inl (Panic ''formula: no value'', DStruct [DString []]) \<and>
   handleStruct ''Formula'' (Some panicking_hook) [Field ''M'' [] (ROther ''map'')]
     (DStruct [DString []]) (JString ''42'') = Inl (Panic ''formula: no value'') \<and>
   handleStruct ''Formula'' None [Field ''M'' [] (ROther ''map'')]
     (DStruct [DString []]) (JString ''42'') =
       Inl (Panic ''PARSE ERROR: could not parse column 'Formula' as struct'')"
proof -
  have h: "example_hook (JString ''42'') (DStruct [DString []]) = Inr (DStruct [DString ''42''], [])"
    by (simp add: example_hook_def)
  have q: "panicking_hook (JString ''42'') (DStruct [DString []]) =
      Inl (Panic ''formula: no value'', DStruct [DString []])"
    by (simp add: panicking_hook_def)
  show ?thesis
    using hook_overrides_structural_path
      [where maybeParse = example_hook and v = "JString ''42''" and s = "DStruct [DString []]"
         and s' = "DStruct [DString ''42'']" and results = "[]" and key = "''Formula''"
         and fs = "[Field ''M'' [] (ROther ''map'')]"]
      hook_overrides_structural_path
      [where maybeParse = panicking_hook and v = "JString ''42''" and s = "DStruct [DString []]"
         and p = "Panic ''formula: no value''" and s'' = "DStruct [DString []]"
         and key = "''Formula''" and fs = "[Field ''M'' [] (ROther ''map'')]"]
      h q
    by (simp add: parse_error_def quoted_def)
qed

section \<open>Slices\<close>

lemma handleSlice_loop_Inr:
  "handleSlice_loop key et s = Inr dst \<Longrightarrow>
     length dst = length s \<and> (\<forall>i<length s. dispatch key et (zero et) (s ! i) = Inr (dst ! i))"
proof (induction s arbitrary: dst)
  case Nil
  then show ?case by simp
next
  case (Cons v s)
  from Cons.prems obtain elem rest where
    e: "dispatch key et (zero et) v = Inr elem" and r: "handleSlice_loop key et s = Inr rest"
    and d: "dst = elem # rest"
    by (auto split: sum.splits)
  from Cons.IH [OF r] e d show ?case
    by (auto simp: nth_Cons split: nat.splits)
qed

lemma handleSlice_loop_total:
  "\<forall>i<length s. \<exists>x. dispatch key et (zero et) (s ! i) = Inr x \<Longrightarrow>
     \<exists>dst. handleSlice_loop key et s = Inr dst"
proof (induction s)
  case Nil
  then show ?case by simp
next
  case (Cons v s)
  from Cons.prems have "\<exists>x. dispatch key et (zero et) ((v # s) ! 0) = Inr x"
    by blast
  then obtain elem where e: "dispatch key et (zero et) v = Inr elem"
    by auto
  have "\<forall>i<length s. \<exists>x. dispatch key et (zero et) (s ! i) = Inr x"
  proof (intro allI impI)
    fix i assume "i < length s"
    then have "Suc i < length (v # s)" by simp
    with Cons.prems have "\<exists>x. dispatch key et (zero et) ((v # s) ! Suc i) = Inr x"
      by blast
    then show "\<exists>x. dispatch key et (zero et) (s ! i) = Inr x" by simp
  qed
  from Cons.IH [OF this] obtain rest where "handleSlice_loop key et s = Inr rest" ..
  with e show ?case by simp
qed

text \<open>
  C5. A slot of slice kind is handled by \<open>handleSlice\<close>. For an array of \<open>N\<close> entries
  a successful mapping sets the slot to a slice of length \<open>N\<close> whose \<open>i\<close>-th element
  is what the switch on the element type makes of the \<open>i\<close>-th entry, starting from the
  zero value of the element type and under the same column name; the mapping
  succeeds whenever every entry maps. A value that is not an array makes the mapper
  panic with the parse error that names the column and the kind \<open>slice\<close>.
\<close>

theorem handleSlice_maps_each_entry:
  "dispatch key (RSlice et) f v = handleSlice key et f v \<and>
   Get_switch key (RSlice et) f v = handleSlice key et f v \<and>
   (handleSlice key et f (JArray s) = Inr d \<longrightarrow>
      (\<exists>dst. d = DSlice dst \<and> length dst = length s \<and>
         (\<forall>i<length s. dispatch key et (zero et) (s ! i) = Inr (dst ! i)))) \<and>
   ((\<forall>i<length s. \<exists>x. dispatch key et (zero et) (s ! i) = Inr x) \<longrightarrow>
      (\<exists>dst. handleSlice key et f (JArray s) = Inr (DSlice dst) \<and> length dst = length s)) \<and>
   ((\<forall>a. v \<noteq> JArray a) \<longrightarrow>
      handleSlice key et f v =
        Inl (Panic (''PARSE ERROR: could not parse column '' @ [CHR 0x27] @ key @ [CHR 0x27] @ '' as slice'')))"
proof -
  have ok: "\<exists>dst. d = DSlice dst \<and> length dst = length s \<and>
         (\<forall>i<length s. dispatch key et (zero et) (s ! i) = Inr (dst ! i))"
    if "handleSlice key et f (JArray s) = Inr d"
  proof -
    from that obtain dst where l: "handleSlice_loop key et s = Inr dst" and "d = DSlice dst"
      by (auto split: sum.splits)
    with handleSlice_loop_Inr [OF l] show ?thesis by blast
  qed
  have total: "\<exists>dst. handleSlice key et f (JArray s) = Inr (DSlice dst) \<and> length dst = length s"
    if "\<forall>i<length s. \<exists>x. dispatch key et (zero et) (s ! i) = Inr x"
  proof -
    from handleSlice_loop_total [OF that] obtain dst where l: "handleSlice_loop key et s = Inr dst" ..
    with handleSlice_loop_Inr [OF l] show ?thesis by simp
  qed
  have bad: "handleSlice key et f v = Inl (parse_error key ''slice'')" if "\<forall>a. v \<noteq> JArray a"
    using that by (cases v) simp_all
  show ?thesis
    using ok total bad by (simp add: parse_error_def quoted_def)
qed

lemma example_thumbnails:
  "dispatch ''Thumbs'' example_thumbnail (zero example_thumbnail)
     (JObject [(''url'', JString ''a.png''), (''width'', JNumber 32)]) =
       Inr (DStruct [DString ''a.png'', DInt 32])"
  "dispatch ''Thumbs'' example_thumbnail (zero example_thumbnail)
     (JObject [(''width'', JNumber 64), (''url'', JString ''b.png'')]) =
       Inr (DStruct [DString ''b.png'', DInt 64])"
  by (simp_all add: example_thumbnail_def map_index_def int64_def math_Trunc_def)

theorem handleSlice_maps_each_entry_witness:
  "handleSlice ''Thumbs'' example_thumbnail DNilSlice
     (JArray [JObject [(''url'', JString ''a.png''), (''width'', JNumber 32)],
              JObject [(''width'', JNumber 64), (''url'', JString ''b.png'')]]) =
     Inr (DSlice [DStruct [DString ''a.png'', DInt 32], DStruct [DString ''b.png'', DInt 64]]) \<and>
   (\<forall>a. JString ''x'' \<noteq> JArray a) \<and>
   handleSlice ''Thumbs'' example_thumbnail DNilSlice (JString ''x'') =
     Inl (Panic ''PARSE ERROR: could not parse column 'Thumbs' as slice'')"
proof -
  let ?s = "[JObject [(''url'', JString ''a.png''), (''width'', JNumber 32)],
             JObject [(''width'', JNumber 64), (''url'', JString ''b.png'')]]"
  have each: "\<forall>i<length ?s. \<exists>x. dispatch ''Thumbs'' example_thumbnail (zero example_thumbnail) (?s ! i) = Inr x"
    using example_thumbnails by (auto simp: less_Suc_eq)
  from handleSlice_maps_each_entry
    [where key = "''Thumbs''" and et = example_thumbnail and f = DNilSlice and s = ?s
       and v = "JString ''x''"] each
  obtain dst where d: "handleSlice ''Thumbs'' example_thumbnail DNilSlice (JArray ?s) = Inr (DSlice dst)"
    and bad: "handleSlice ''Thumbs'' example_thumbnail DNilSlice (JString ''x'') =
     Inl (Panic ''PARSE ERROR: could not parse column 'Thumbs' as slice'')"
    by auto
  from handleSlice_maps_each_entry
    [where key = "''Thumbs''" and et = example_thumbnail and f = DNilSlice and s = ?s
       and d = "DSlice dst"] d
  have len: "length dst = 2"
    and el: "\<forall>i<length ?s. dispatch ''Thumbs'' example_thumbnail (zero example_thumbnail) (?s ! i) = Inr (dst ! i)"
    by auto
  from el have "dst ! 0 = DStruct [DString ''a.png'', DInt 32]"
    "dst ! 1 = DStruct [DString ''b.png'', DInt 64]"
    using example_thumbnails by auto
  with len have "dst = [DStruct [DString ''a.png'', DInt 32], DStruct [DString ''b.png'', DInt 64]]"
    by (cases dst; cases "tl dst") auto
  with d bad show ?thesis by simp
qed

section \<open>Lookup keys\<close>

lemma handleStruct_loop_Cons:
  "handleStruct_loop (fT # fs) slots m =
     (case dispatch (external_key fT) (Type fT) (first_slot (Type fT) slots)
             (map_index m (external_key fT)) of
        Inl p \<Rightarrow> Inl p
      | Inr x \<Rightarrow>
          (case handleStruct_loop fs (tl slots) m of
             Inl p \<Rightarrow> Inl p
           | Inr xs \<Rightarrow> Inr (x # xs)))"
  by (cases fT) (simp add: external_key_def split: option.splits)

lemma Get_loop_Cons:
  "Get_loop (fT # fs) slots flds =
     (case Get_field (external_key fT) (Type fT) (first_slot (Type fT) slots)
             (map_index flds (external_key fT)) of
        Inl p \<Rightarrow> Inl p
      | Inr x \<Rightarrow>
          (case Get_loop fs (tl slots) flds of
             Inl p \<Rightarrow> Inl p
           | Inr xs \<Rightarrow> Inr (x # xs)))"
  by (cases fT) (simp add: external_key_def Let_def split: option.splits)

lemma handleStruct_loop_Inr:
  "handleStruct_loop fs slots m = Inr xs \<Longrightarrow>
     length xs = length fs \<and>
     (\<forall>i<length fs.
        dispatch (external_key (fs ! i)) (Type (fs ! i)) (first_slot (Type (fs ! i)) (drop i slots))
          (map_index m (external_key (fs ! i))) = Inr (xs ! i))"
proof (induction fs arbitrary: slots xs)
  case Nil
  then show ?case by simp
next
  case (Cons fT fs)
  from Cons.prems obtain x rest where
    x: "dispatch (external_key fT) (Type fT) (first_slot (Type fT) slots)
          (map_index m (external_key fT)) = Inr x"
    and r: "handleStruct_loop fs (tl slots) m = Inr rest" and xs: "xs = x # rest"
    unfolding handleStruct_loop_Cons by (auto split: sum.splits)
  from Cons.IH [OF r] x xs show ?case
    by (auto simp: nth_Cons drop_Suc split: nat.splits)
qed

lemma Get_loop_Inr:
  "Get_loop fs slots flds = Inr xs \<Longrightarrow>
     length xs = length fs \<and>
     (\<forall>i<length fs.
        Get_field (external_key (fs ! i)) (Type (fs ! i)) (first_slot (Type (fs ! i)) (drop i slots))
          (map_index flds (external_key (fs ! i))) = Inr (xs ! i))"
proof (induction fs arbitrary: slots xs)
  case Nil
  then show ?case by simp
next
  case (Cons fT fs)
  from Cons.prems obtain x rest where
    x: "Get_field (external_key fT) (Type fT) (first_slot (Type fT) slots)
          (map_index flds (external_key fT)) = Inr x"
    and r: "Get_loop fs (tl slots) flds = Inr rest" and xs: "xs = x # rest"
    unfolding Get_loop_Cons by (auto split: sum.splits)
  from Cons.IH [OF r] x xs show ?case
    by (auto simp: nth_Cons drop_Suc split: nat.splits)
qed

lemma loops_use_external_keys_only:
  assumes "\<forall>fT\<in>set fs. map_index m (external_key fT) = map_index m' (external_key fT)"
  shows "handleStruct_loop fs slots m = handleStruct_loop fs slots m'"
    and "Get_loop fs slots m = Get_loop fs slots m'"
  using assms
proof (induction fs arbitrary: slots)
  case Nil
  { case 1 show ?case by simp }
  { case 2 show ?case by simp }
next
  case (Cons fT fs)
  { case 1
    then have "map_index m (external_key fT) = map_index m' (external_key fT)"
      and "\<forall>fT\<in>set fs. map_index m (external_key fT) = map_index m' (external_key fT)"
      by simp_all
    then show ?case
      unfolding handleStruct_loop_Cons using Cons.IH(1) [of "tl slots"]
      by (simp split: sum.splits) }
  { case 2
    then have "map_index m (external_key fT) = map_index m' (external_key fT)"
      and "\<forall>fT\<in>set fs. map_index m (external_key fT) = map_index m' (external_key fT)"
      by simp_all
    then show ?case
      unfolding Get_loop_Cons using Cons.IH(2) [of "tl slots"]
      by (simp split: sum.splits) }
qed

text \<open>
  C7. In the loop of \<open>Get\<close> over the fields of the record and in the loop of
  \<open>handleStruct\<close> over the fields of a nested struct, at whatever depth, the value
  mapped into the \<open>i\<close>-th field is the one the fields map holds under the external
  key of that field, the alias when the field declares one and its name otherwise,
  and that key is the column name passed on. Two maps that agree on the external
  keys of the fields give the same outcome, so no other key is looked up.
\<close>

theorem lookup_key_is_alias_or_name:
  "(handleStruct_loop fs slots m = Inr xs \<and> i < length fs \<longrightarrow>
      dispatch (external_key (fs ! i)) (Type (fs ! i)) (first_slot (Type (fs ! i)) (drop i slots))
        (map_index m (external_key (fs ! i))) = Inr (xs ! i)) \<and>
   (Get_loop fs slots m = Inr ys \<and> i < length fs \<longrightarrow>
      Get_field (external_key (fs ! i)) (Type (fs ! i)) (first_slot (Type (fs ! i)) (drop i slots))
        (map_index m (external_key (fs ! i))) = Inr (ys ! i)) \<and>
   ((\<forall>fT\<in>set fs. map_index m (external_key fT) = map_index m' (external_key fT)) \<longrightarrow>
      handleStruct_loop fs slots m = handleStruct_loop fs slots m' \<and>
      Get_loop fs slots m = Get_loop fs slots m')"
  using handleStruct_loop_Inr [of fs slots m xs] Get_loop_Inr [of fs slots m ys]
    loops_use_external_keys_only [of fs m m' slots]
  by blast

lemma example_keys:
  "external_key (Field ''When'' [(''from'', ''When?'')] RString) = ''When?''"
  "external_key (Field ''Name'' [] RString) = ''Name''"
  "external_key (Field ''Notes'' [] RString) = ''Notes''"
  by (simp_all add: external_key_def)

theorem lookup_key_is_alias_or_name_witness:
  "handleStruct_loop example_record_type []
     [(''When?'', JString ''2017-03-01''), (''When'', JString ''never''), (''Name'', JString ''Ada''),
      (''Notes'', JString ''first'')] =
     Inr [DString ''2017-03-01'', DString ''Ada'', DString ''first''] \<and>
   Get_loop example_record_type []
     [(''When?'', JString ''2017-03-01''), (''When'', JString ''never''), (''Name'', JString ''Ada''),
      (''Notes'', JString ''first'')] =
     Inr [DString ''2017-03-01'', DString ''Ada'', DString ''first''] \<and>
   (0::nat) < length example_record_type \<and>
   external_key (example_record_type ! 0) = ''When?'' \<and>
   map (\<lambda>fT. map_index [(''When?'', JString ''2017-03-01''), (''When'', JString ''never''),
                 (''Name'', JString ''Ada''), (''Notes'', JString ''first'')] (external_key fT))
     example_record_type =
   map (\<lambda>fT. map_index [(''Notes'', JString ''first''), (''Name'', JString ''Ada''),
                 (''When?'', JString ''2017-03-01'')] (external_key fT))
     example_record_type \<and>
   handleStruct_loop example_record_type []
     [(''Notes'', JString ''first''), (''Name'', JString ''Ada''), (''When?'', JString ''2017-03-01'')] =
     Inr [DString ''2017-03-01'', DString ''Ada'', DString ''first'']"
proof -
  let ?m = "[(''When?'', JString ''2017-03-01''), (''When'', JString ''never''),
             (''Name'', JString ''Ada''), (''Notes'', JString ''first'')]"
  let ?m' = "[(''Notes'', JString ''first''), (''Name'', JString ''Ada''),
              (''When?'', JString ''2017-03-01'')]"
  have 1: "handleStruct_loop example_record_type [] ?m =
      Inr [DString ''2017-03-01'', DString ''Ada'', DString ''first'']"
    by (simp add: example_record_type_def map_index_def)
  have 2: "Get_loop example_record_type [] ?m =
      Inr [DString ''2017-03-01'', DString ''Ada'', DString ''first'']"
    by (simp add: example_record_type_def map_index_def Get_field_def)
  have 3: "\<forall>fT\<in>set example_record_type. map_index ?m (external_key fT) = map_index ?m' (external_key fT)"
    by (simp add: example_record_type_def example_keys map_index_def)
  have 4: "(0::nat) < length example_record_type" "external_key (example_record_type ! 0) = ''When?''"
    by (simp_all add: example_record_type_def example_keys)
  show ?thesis
    using lookup_key_is_alias_or_name
      [where fs = example_record_type and slots = "[]" and m = ?m and m' = ?m' and i = 0
         and xs = "[DString ''2017-03-01'', DString ''Ada'', DString ''first'']"
         and ys = "[DString ''2017-03-01'', DString ''Ada'', DString ''first'']"]
      1 2 3 4
    by simp
qed

section \<open>Missing keys inside a nested struct\<close>

text \<open>
  C1. The record has one field, a struct with the string fields \<open>ID\<close> and \<open>URL\<close>
  under the keys \<open>id\<close> and \<open>url\<close>. When the inner object has no \<open>url\<close>, or has it
  as \<open>null\<close>, the mapping panics, where the claim has it succeed with \<open>URL\<close> left
  empty. With both keys the mapping succeeds, and at the top level of a record a
  missing or \<open>null\<close> key is skipped.
\<close>

theorem nested_missing_key_panics:
  "Get_loop example_attachment_type [DStruct [DString [], DString []]]
     [(''Attachments'', JObject [(''id'', JString ''att1'')])] =
     Inl (Panic ''PARSE ERROR: could not parse column 'url' as string'') \<and>
   Get_loop example_attachment_type [DStruct [DString [], DString []]]
     [(''Attachments'', JObject [(''id'', JString ''att1''), (''url'', JNull)])] =
     Inl (Panic ''PARSE ERROR: could not parse column 'url' as string'') \<and>
   Get_loop example_attachment_type [DStruct [DString [], DString []]]
     [(''Attachments'', JObject [(''id'', JString ''att1''), (''url'', JString ''a.png'')])] =
     Inr [DStruct [DString ''att1'', DString ''a.png'']] \<and>
   Get_loop example_record_type [DString [], DString [], DString []]
     [(''Name'', JString ''Ada''), (''Notes'', JNull)] =
     Inr [DString [], DString ''Ada'', DString []]"
  by (simp add: example_attachment_type_def example_record_type_def map_index_def
      parse_error_def quoted_def Get_field_def)

section \<open>The record a call writes\<close>

text \<open>When the mapper returns, what it has written is what it returns.\<close>

lemma written_is_returned:
  "dispatch key t f v = Inr x \<Longrightarrow> written_slot key t f v = x"
  "handleStruct_loop fs slots m = Inr xs \<Longrightarrow> written_fields fs slots m = xs"
proof (induction key t f v and fs slots m arbitrary: x and xs
    rule: written_slot_written_fields.induct)
  case (2 key fs s v)
  then show ?case
    by (cases v) (auto split: sum.splits)
next
  case (5 name tag t fs slots m)
  then show ?case
    by (auto simp: Let_def split: sum.splits)
qed (auto split: sum.splits prod.splits)
















end
